theory Spec2Isabelle
  imports Complex_Main
begin

section \<open>Navio: aligning a transcription with a speaker diarization\<close>

text \<open>
  The development embeds \<^verbatim>\<open>src/server/utils/diarization_utils.py\<close>: the two loops of
  \<^verbatim>\<open>Diarization.map_transcription_to_diarization\<close> (alignment, then merging of adjacent
  segments of one speaker) and \<^verbatim>\<open>Diarization.format_combined_segments\<close>.

  Modelling decisions.
  \<^item> The Python dictionaries of the three segment kinds are records. The docstring fixes
    their keys (\<^verbatim>\<open>start\<close>, \<^verbatim>\<open>end\<close>, \<^verbatim>\<open>text\<close> for a transcription segment, \<^verbatim>\<open>start\<close>,
    \<^verbatim>\<open>end\<close>, \<^verbatim>\<open>speaker\<close> for a diarization segment); on dictionaries of that shape no
    statement of the function raises, and the function contains no \<^verbatim>\<open>raise\<close> of its own,
    so the model is a total function that returns the list of merged segments.
  \<^item> In the alignment and the merge a time stamp is a finite Python float, read as the
    real number it denotes. \<^verbatim>\<open>max\<close>, \<^verbatim>\<open>min\<close> and \<^verbatim>\<open><\<close> are exact on floats; the one rounded
    operation, the subtraction of the soft-match test, is modelled by the exact difference.
    The rendering takes every float, the negative zero, the infinities and the NaN
    included.
  \<^item> The field names are the source's: \<^verbatim>\<open>trans_start\<close>, \<^verbatim>\<open>trans_end\<close>, \<^verbatim>\<open>trans_text\<close> are
    local variables of the function, \<^verbatim>\<open>dia\<close> and \<^verbatim>\<open>seg\<close> its loop variables; the loop
    variable \<^verbatim>\<open>trans\<close> is written \<open>tseg\<close>, since \<open>trans\<close> is a constant of HOL.
  \<^item> Each \<^verbatim>\<open>for\<close> loop is a recursive function over the list it walks, which passes the
    list under construction (\<^verbatim>\<open>unified_transcript\<close>, \<^verbatim>\<open>merged_transcript\<close>) as state;
    \<^verbatim>\<open>append\<close> adds at the end, \<^verbatim>\<open>merged_transcript[-1]\<close> is the last element.
  \<^item> Logging is not modelled.
\<close>

subsection \<open>Data\<close>

record transcription_segment =
  trans_start :: real
  trans_end :: real
  trans_text :: string

record diarization_segment =
  dia_start :: real
  dia_end :: real
  dia_speaker :: string

text \<open>The dictionaries the function builds: keys \<^verbatim>\<open>start\<close>, \<^verbatim>\<open>end\<close>, \<^verbatim>\<open>speaker\<close>, \<^verbatim>\<open>text\<close>.\<close>

record segment =
  seg_start :: real
  seg_end :: real
  seg_speaker :: string
  seg_text :: string

definition UNKNOWN :: string where
  "UNKNOWN = ''UNKNOWN''"

subsection \<open>The alignment loop (lines 81 to 117)\<close>

text \<open>The list comprehension of lines 90 to 93: the soft-match test.\<close>

definition overlapping_segments ::
  "transcription_segment \<Rightarrow> diarization_segment list \<Rightarrow> real \<Rightarrow> diarization_segment list" where
  "overlapping_segments tseg diarization tolerance =
     filter (\<lambda>dia. max (dia_start dia) (trans_start tseg) - min (dia_end dia) (trans_end tseg)
                     < tolerance) diarization"

text \<open>The inner loop of lines 106 to 117, over the soft-match candidates.\<close>

fun map_overlaps ::
  "transcription_segment \<Rightarrow> diarization_segment list \<Rightarrow> segment list \<Rightarrow> segment list" where
  "map_overlaps tseg [] unified = unified"
| "map_overlaps tseg (dia # rest) unified =
     (let overlap_start = max (dia_start dia) (trans_start tseg);
          overlap_end = min (dia_end dia) (trans_end tseg)
      in if overlap_start < overlap_end
         then map_overlaps tseg rest
                (unified @ [\<lparr>seg_start = overlap_start, seg_end = overlap_end,
                              seg_speaker = dia_speaker dia, seg_text = trans_text tseg\<rparr>])
         else map_overlaps tseg rest unified)"

text \<open>The body of the outer loop, lines 82 to 117, for one transcription segment.\<close>

definition map_trans ::
  "diarization_segment list \<Rightarrow> real \<Rightarrow> transcription_segment \<Rightarrow> segment list \<Rightarrow> segment list" where
  "map_trans diarization tolerance tseg unified =
     (let overlapping = overlapping_segments tseg diarization tolerance
      in if overlapping = []
         then unified @ [\<lparr>seg_start = trans_start tseg, seg_end = trans_end tseg,
                            seg_speaker = UNKNOWN, seg_text = trans_text tseg\<rparr>]
         else map_overlaps tseg overlapping unified)"

text \<open>The outer loop of line 81.\<close>

fun align_loop ::
  "diarization_segment list \<Rightarrow> real \<Rightarrow> transcription_segment list \<Rightarrow> segment list \<Rightarrow> segment list" where
  "align_loop diarization tolerance [] unified = unified"
| "align_loop diarization tolerance (tseg # rest) unified =
     align_loop diarization tolerance rest (map_trans diarization tolerance tseg unified)"

text \<open>The value of \<^verbatim>\<open>unified_transcript\<close> at line 119: the loop run from the empty list.\<close>

definition unified_transcript ::
  "transcription_segment list \<Rightarrow> diarization_segment list \<Rightarrow> real \<Rightarrow> segment list" where
  "unified_transcript transcription diarization tolerance =
     align_loop diarization tolerance transcription []"

subsection \<open>The merge loop (lines 119 to 128)\<close>

fun merge_loop :: "segment list \<Rightarrow> segment list \<Rightarrow> segment list" where
  "merge_loop [] merged = merged"
| "merge_loop (seg # rest) merged =
     (if merged \<noteq> [] \<and> seg_speaker seg = seg_speaker (last merged)
      then merge_loop rest
             (butlast merged @
                [(last merged)\<lparr>seg_end := seg_end seg,
                                seg_text := seg_text (last merged) @ '' '' @ seg_text seg\<rparr>])
      else merge_loop rest (merged @ [seg]))"

text \<open>The value of \<^verbatim>\<open>merged_transcript\<close> at line 130.\<close>

definition merged_transcript :: "segment list \<Rightarrow> segment list" where
  "merged_transcript unified = merge_loop unified []"

definition map_transcription_to_diarization ::
  "transcription_segment list \<Rightarrow> diarization_segment list \<Rightarrow> real \<Rightarrow> segment list" where
  "map_transcription_to_diarization transcription diarization tolerance =
     merged_transcript (unified_transcript transcription diarization tolerance)"

subsection \<open>Rendering (lines 132 to 146)\<close>

text \<open>
  \<^verbatim>\<open>format_combined_segments\<close> is a method of its own: it renders whatever list of
  dictionaries with the keys \<^verbatim>\<open>start\<close>, \<^verbatim>\<open>end\<close>, \<^verbatim>\<open>speaker\<close> and \<^verbatim>\<open>text\<close> it is given. Its
  time stamps are therefore modelled as Python floats in full: a finite float, read as the
  real number it denotes (\<open>Finite 0\<close> is the positive zero), the negative zero, the two
  infinities and the NaN. The fields of the record are named after the loop variable
  \<^verbatim>\<open>segment\<close> of the method. A segment of the alignment enters by \<open>combined\<close>.
\<close>

datatype py_float = Finite real | Neg_zero | Pos_inf | Neg_inf | Nan

record combined_segment =
  segment_start :: py_float
  segment_end :: py_float
  segment_speaker :: string
  segment_text :: string

definition combined :: "segment \<Rightarrow> combined_segment" where
  "combined seg =
     \<lparr>segment_start = Finite (seg_start seg), segment_end = Finite (seg_end seg),
      segment_speaker = seg_speaker seg, segment_text = seg_text seg\<rparr>"

text \<open>
  The format specification \<^verbatim>\<open>:.2f\<close> of Python renders the exact value of a finite float
  in fixed-point notation with two digits after the point, correctly rounded (a tie goes
  to the even neighbour), with a minus sign when the sign of the float is negative and no
  padding; an infinity and the NaN are rendered as the words \<^verbatim>\<open>inf\<close>, \<^verbatim>\<open>-inf\<close> and
  \<^verbatim>\<open>nan\<close>. In the model \<open>round_half_even\<close> is the rounding of the absolute value scaled by
  100, \<open>decimal\<close> gives the digits of a natural number, \<open>fixed_2f\<close> renders a real number
  and \<open>format_2f\<close> a float.
\<close>

definition round_half_even :: "real \<Rightarrow> int" where
  "round_half_even x =
     (let f = \<lfloor>x\<rfloor>; r = x - of_int f
      in if r < 1 / 2 then f
         else if 1 / 2 < r then f + 1
         else if even f then f else f + 1)"

definition digit_char :: "nat \<Rightarrow> char" where
  "digit_char d = ''0123456789'' ! (d mod 10)"

fun decimal :: "nat \<Rightarrow> string" where
  "decimal n = (if n < 10 then [digit_char n] else decimal (n div 10) @ [digit_char (n mod 10)])"

declare decimal.simps [simp del]

definition fixed_2f :: "real \<Rightarrow> string" where
  "fixed_2f x =
     (let n = nat (round_half_even (\<bar>x\<bar> * 100))
      in (if x < 0 then ''-'' else []) @ decimal (n div 100) @ ''.'' @
         [digit_char (n div 10), digit_char n])"

fun format_2f :: "py_float \<Rightarrow> string" where
  "format_2f (Finite x) = fixed_2f x"
| "format_2f Neg_zero = ''-0.00''"
| "format_2f Pos_inf = ''inf''"
| "format_2f Neg_inf = ''-inf''"
| "format_2f Nan = ''nan''"

text \<open>The f-string of line 143.\<close>

definition format_segment :: "combined_segment \<Rightarrow> string" where
  "format_segment segment =
     ''['' @ format_2f (segment_start segment) @ ''-'' @ format_2f (segment_end segment) @
     ''] '' @ segment_speaker segment @ '': '' @ segment_text segment"

text \<open>Python's \<^verbatim>\<open>sep.join(strings)\<close>.\<close>

fun join :: "string \<Rightarrow> string list \<Rightarrow> string" where
  "join sep [] = []"
| "join sep [s] = s"
| "join sep (s # t # rest) = s @ sep @ join sep (t # rest)"

definition format_combined_segments :: "combined_segment list \<Rightarrow> string" where
  "format_combined_segments combined_segments =
     join [CHR 0x0A] (map format_segment combined_segments)"

text \<open>
  What a rendered number denotes: \<open>read_decimal\<close> reads a string of decimal digits as a
  natural number. It is not part of the source; the statement about the two decimal
  places is made with it.
\<close>

definition digit_value :: "char \<Rightarrow> nat" where
  "digit_value c = of_char c - 48"

definition read_decimal :: "string \<Rightarrow> nat" where
  "read_decimal s = foldl (\<lambda>acc c. 10 * acc + digit_value c) 0 s"

subsection \<open>The design document's formulation\<close>

text \<open>
  The definitions of this subsection are not taken from the source. They follow the words
  of the design document (sections 4.1 and 4.2 of \<^verbatim>\<open>spec.md\<close>), and the loops above are
  compared with them: \<open>gap\<close>, \<open>ov_start\<close> and \<open>ov_end\<close> are the quantities of the soft-match
  test and of the hard overlap window, \<open>candidate_set\<close> is step 1, \<open>attribute\<close> is steps 2
  to 4 for one transcription segment, \<open>align_spec\<close> is the alignment engine.
\<close>

definition gap :: "diarization_segment \<Rightarrow> transcription_segment \<Rightarrow> real" where
  "gap d t = max (dia_start d) (trans_start t) - min (dia_end d) (trans_end t)"

definition ov_start :: "diarization_segment \<Rightarrow> transcription_segment \<Rightarrow> real" where
  "ov_start d t = max (dia_start d) (trans_start t)"

definition ov_end :: "diarization_segment \<Rightarrow> transcription_segment \<Rightarrow> real" where
  "ov_end d t = min (dia_end d) (trans_end t)"

definition candidate_set ::
  "transcription_segment \<Rightarrow> diarization_segment list \<Rightarrow> real \<Rightarrow> diarization_segment list" where
  "candidate_set t D tol = filter (\<lambda>d. gap d t < tol) D"

definition unknown_segment :: "transcription_segment \<Rightarrow> segment" where
  "unknown_segment t =
     \<lparr>seg_start = trans_start t, seg_end = trans_end t, seg_speaker = UNKNOWN,
      seg_text = trans_text t\<rparr>"

definition overlap_segment :: "transcription_segment \<Rightarrow> diarization_segment \<Rightarrow> segment" where
  "overlap_segment t d =
     \<lparr>seg_start = ov_start d t, seg_end = ov_end d t, seg_speaker = dia_speaker d,
      seg_text = trans_text t\<rparr>"

definition attribute ::
  "transcription_segment \<Rightarrow> diarization_segment list \<Rightarrow> real \<Rightarrow> segment list" where
  "attribute t D tol =
     (if candidate_set t D tol = [] then [unknown_segment t]
      else map (overlap_segment t)
             (filter (\<lambda>d. ov_start d t < ov_end d t) (candidate_set t D tol)))"

definition align_spec ::
  "transcription_segment list \<Rightarrow> diarization_segment list \<Rightarrow> real \<Rightarrow> segment list" where
  "align_spec T D tol = concat (map (\<lambda>t. attribute t D tol) T)"

text \<open>
  The turn merger of section 4.2: one pass that keeps a current turn, extends it by a
  segment of the same speaker, and otherwise emits it and opens a new turn with the segment.
\<close>

fun merge_from :: "segment \<Rightarrow> segment list \<Rightarrow> segment list" where
  "merge_from current [] = [current]"
| "merge_from current (s # rest) =
     (if seg_speaker s = seg_speaker current
      then merge_from (current\<lparr>seg_end := seg_end s,
                               seg_text := seg_text current @ '' '' @ seg_text s\<rparr>) rest
      else current # merge_from s rest)"

fun merge_spec :: "segment list \<Rightarrow> segment list" where
  "merge_spec [] = []"
| "merge_spec (s # rest) = merge_from s rest"

text \<open>
  An ordering condition on the input of the merge: of two neighbours with the same
  speaker, the later one does not start before the earlier one.
\<close>

definition run_ordered :: "segment list \<Rightarrow> bool" where
  "run_ordered segs =
     successively (\<lambda>a b. seg_speaker a = seg_speaker b \<longrightarrow> seg_start a \<le> seg_start b) segs"

section \<open>Properties of the loops\<close>

subsection \<open>The alignment loop\<close>

lemma candidate_set_eq: "overlapping_segments t D tol = candidate_set t D tol"
  by (simp add: overlapping_segments_def candidate_set_def gap_def)

lemma map_overlaps_eq:
  "map_overlaps t ds unified =
     unified @ map (overlap_segment t) (filter (\<lambda>d. ov_start d t < ov_end d t) ds)"
  by (induction ds arbitrary: unified)
     (simp_all add: Let_def overlap_segment_def ov_start_def ov_end_def)

lemma map_trans_eq: "map_trans D tol t unified = unified @ attribute t D tol"
  by (simp add: map_trans_def Let_def attribute_def candidate_set_eq map_overlaps_eq
      unknown_segment_def)

lemma align_loop_eq: "align_loop D tol T unified = unified @ align_spec T D tol"
  by (induction T arbitrary: unified) (simp_all add: align_spec_def map_trans_eq)

lemma unified_transcript_eq: "unified_transcript T D tol = align_spec T D tol"
  by (simp add: unified_transcript_def align_loop_eq)

lemma unified_transcript_append:
  "unified_transcript (T1 @ T2) D tol = unified_transcript T1 D tol @ unified_transcript T2 D tol"
  by (simp add: unified_transcript_eq align_spec_def)

lemma unified_transcript_Cons:
  "unified_transcript (t # T) D tol = attribute t D tol @ unified_transcript T D tol"
  by (simp add: unified_transcript_eq align_spec_def)

lemma attribute_no_diarization: "attribute t [] tol = [unknown_segment t]"
  by (simp add: attribute_def candidate_set_def)

lemma unified_no_diarization: "unified_transcript T [] tol = map unknown_segment T"
  by (induction T) (simp_all add: unified_transcript_eq align_spec_def attribute_no_diarization)

text \<open>A segment whose end lies before its start has no hard overlap with anything.\<close>

lemma malformed_trans:
  "trans_end t < trans_start t \<Longrightarrow>
   attribute t D tol = (if overlapping_segments t D tol = [] then [unknown_segment t] else [])"
  by (auto simp: attribute_def candidate_set_eq ov_start_def ov_end_def filter_empty_conv)

lemma malformed_dia: "dia_end d < dia_start d \<Longrightarrow> \<not> ov_start d t < ov_end d t"
  by (auto simp: ov_start_def ov_end_def)

lemma overlap_segment_positive:
  "s \<in> set (map (overlap_segment t) (filter (\<lambda>d. ov_start d t < ov_end d t) ds)) \<Longrightarrow>
   seg_start s < seg_end s"
  by (auto simp: overlap_segment_def)

lemma attribute_positive:
  "s \<in> set (attribute t D tol) \<Longrightarrow> seg_speaker s \<noteq> UNKNOWN \<Longrightarrow> seg_start s < seg_end s"
  by (auto simp: attribute_def unknown_segment_def overlap_segment_def split: if_splits)

subsection \<open>The merge loop\<close>

text \<open>
  With a non-empty \<open>merged\<close>, the loop works on its last element only: it is the current
  turn of the design document.
\<close>

lemma merge_loop_from:
  "merge_loop segs (merged @ [current]) = merged @ merge_from current segs"
proof (induction segs arbitrary: merged current)
  case Nil
  show ?case by simp
next
  case (Cons s rest)
  show ?case
  proof (cases "seg_speaker s = seg_speaker current")
    case True
    then show ?thesis using Cons.IH [of merged] by simp
  next
    case False
    then show ?thesis using Cons.IH [of "merged @ [current]" s] by simp
  qed
qed

lemma merged_transcript_eq: "merged_transcript segs = merge_spec segs"
proof (cases segs)
  case Nil
  then show ?thesis by (simp add: merged_transcript_def)
next
  case (Cons s rest)
  then show ?thesis using merge_loop_from [of rest "[]" s] by (simp add: merged_transcript_def)
qed

lemma merge_loop_append: "merge_loop (xs @ ys) merged = merge_loop ys (merge_loop xs merged)"
  by (induction xs arbitrary: merged) simp_all

lemma merged_transcript_snoc:
  "merged_transcript (segs @ [seg]) =
     (if merged_transcript segs \<noteq> [] \<and> seg_speaker seg = seg_speaker (last (merged_transcript segs))
      then butlast (merged_transcript segs) @
             [(last (merged_transcript segs))\<lparr>seg_end := seg_end seg,
                seg_text := seg_text (last (merged_transcript segs)) @ '' '' @ seg_text seg\<rparr>]
      else merged_transcript segs @ [seg])"
  by (simp add: merged_transcript_def merge_loop_append)

lemma speakers_merge_from:
  "map seg_speaker (merge_from current segs) =
     remdups_adj (seg_speaker current # map seg_speaker segs)"
  by (induction segs arbitrary: current) auto

lemma speakers_merged:
  "map seg_speaker (merged_transcript segs) = remdups_adj (map seg_speaker segs)"
  by (cases segs) (simp_all add: merged_transcript_eq speakers_merge_from)

lemma join_absorb: "join sep ((a @ sep @ b) # rest) = a @ sep @ join sep (b # rest)"
  by (cases rest) simp_all

text \<open>A run of one speaker becomes one turn.\<close>

lemma merge_from_run:
  "\<forall>s\<in>set segs. seg_speaker s = seg_speaker current \<Longrightarrow>
   merge_from current segs =
     [current\<lparr>seg_end := seg_end (last (current # segs)),
              seg_text := join '' '' (map seg_text (current # segs))\<rparr>]"
proof (induction segs arbitrary: current)
  case Nil
  show ?case by simp
next
  case (Cons s rest)
  let ?c = "current\<lparr>seg_end := seg_end s, seg_text := seg_text current @ '' '' @ seg_text s\<rparr>"
  have "\<forall>x\<in>set rest. seg_speaker x = seg_speaker ?c" using Cons.prems by simp
  from Cons.IH [OF this] show ?case using Cons.prems
    by (cases rest) (simp_all add: join_absorb)
qed

text \<open>A change of speaker is a boundary that no turn crosses.\<close>

lemma merge_from_boundary:
  "ys \<noteq> [] \<Longrightarrow> seg_speaker (last (current # xs)) \<noteq> seg_speaker (hd ys) \<Longrightarrow>
   merge_from current (xs @ ys) = merge_from current xs @ merge_spec ys"
proof (induction xs arbitrary: current)
  case Nil
  then show ?case by (cases ys) auto
next
  case (Cons x xs)
  show ?case
  proof (cases "seg_speaker x = seg_speaker current")
    case True
    let ?c = "current\<lparr>seg_end := seg_end x, seg_text := seg_text current @ '' '' @ seg_text x\<rparr>"
    have "seg_speaker (last (?c # xs)) \<noteq> seg_speaker (hd ys)"
      using Cons.prems(2) True by (cases xs) simp_all
    from Cons.IH [OF Cons.prems(1) this] True show ?thesis by simp
  next
    case False
    have "seg_speaker (last (x # xs)) \<noteq> seg_speaker (hd ys)"
      using Cons.prems(2) by simp
    from Cons.IH [OF Cons.prems(1) this] False show ?thesis by simp
  qed
qed

lemma merged_boundary:
  assumes "xs \<noteq> []" "ys \<noteq> []" "seg_speaker (last xs) \<noteq> seg_speaker (hd ys)"
  shows "merged_transcript (xs @ ys) = merged_transcript xs @ merged_transcript ys"
proof -
  from assms(1) obtain x rest where xs: "xs = x # rest" by (cases xs) auto
  have "seg_speaker (last (x # rest)) \<noteq> seg_speaker (hd ys)" using assms(3) xs by simp
  from merge_from_boundary [OF assms(2) this] show ?thesis
    by (simp add: merged_transcript_eq xs)
qed

text \<open>
  The span of a turn: its start is the start of the first segment of its run, its end the
  end of the last one. The invariant carried through the pass is that the current turn
  does not start after the next segment of its speaker.
\<close>

lemma merge_from_span:
  assumes "seg_start current \<le> seg_end current"
    and "\<forall>s\<in>set segs. seg_start s \<le> seg_end s"
    and "run_ordered segs"
    and "segs \<noteq> [] \<Longrightarrow> seg_speaker (hd segs) = seg_speaker current \<Longrightarrow>
         seg_start current \<le> seg_start (hd segs)"
  shows "\<forall>t\<in>set (merge_from current segs). seg_start t \<le> seg_end t"
  using assms
proof (induction segs arbitrary: current)
  case Nil
  then show ?case by simp
next
  case (Cons s rest)
  have rest_ok: "\<forall>x\<in>set rest. seg_start x \<le> seg_end x" using Cons.prems(2) by simp
  have rest_ord: "run_ordered rest" using Cons.prems(3)
    by (cases rest) (simp_all add: run_ordered_def)
  show ?case
  proof (cases "seg_speaker s = seg_speaker current")
    case True
    let ?c = "current\<lparr>seg_end := seg_end s, seg_text := seg_text current @ '' '' @ seg_text s\<rparr>"
    have le: "seg_start current \<le> seg_start s" using Cons.prems(4) True by simp
    have c_ok: "seg_start ?c \<le> seg_end ?c" using le Cons.prems(2) by simp
    have nxt: "seg_start ?c \<le> seg_start (hd rest)"
      if "rest \<noteq> []" "seg_speaker (hd rest) = seg_speaker ?c"
    proof -
      from that obtain r rs where r: "rest = r # rs" by (cases rest) auto
      with that True Cons.prems(3) have "seg_start s \<le> seg_start r"
        by (simp add: run_ordered_def)
      with le r show ?thesis by simp
    qed
    from Cons.IH [OF c_ok rest_ok rest_ord nxt] True show ?thesis by simp
  next
    case False
    have s_ok: "seg_start s \<le> seg_end s" using Cons.prems(2) by simp
    have nxt: "seg_start s \<le> seg_start (hd rest)"
      if "rest \<noteq> []" "seg_speaker (hd rest) = seg_speaker s"
    proof -
      from that obtain r rs where r: "rest = r # rs" by (cases rest) auto
      with that Cons.prems(3) show ?thesis by (simp add: run_ordered_def)
    qed
    from Cons.IH [OF s_ok rest_ok rest_ord nxt] False Cons.prems(1) show ?thesis by simp
  qed
qed

subsection \<open>Rendering\<close>

lemma round_half_even_near: "\<bar>of_int (round_half_even x) - x\<bar> \<le> 1 / 2"
  unfolding round_half_even_def Let_def by (auto simp: abs_if) linarith+

lemma round_half_even_nonneg: "0 \<le> y \<Longrightarrow> 0 \<le> round_half_even y"
  unfolding round_half_even_def Let_def by simp

lemma round_half_even_tie:
  assumes "\<bar>of_int (round_half_even y) - y\<bar> = 1 / 2"
  shows "even (round_half_even y)"
proof -
  define r where "r = y - of_int \<lfloor>y\<rfloor>"
  have r: "0 \<le> r" "r < 1" unfolding r_def by linarith+
  show ?thesis
  proof (cases "r < 1 / 2")
    case True
    then have "round_half_even y = \<lfloor>y\<rfloor>"
      by (simp add: round_half_even_def Let_def r_def)
    then have "\<bar>of_int (round_half_even y) - y\<bar> = r" using r by (simp add: r_def)
    with assms True show ?thesis by simp
  next
    case False
    show ?thesis
    proof (cases "1 / 2 < r")
      case True
      then have "round_half_even y = \<lfloor>y\<rfloor> + 1"
        using False by (simp add: round_half_even_def Let_def r_def)
      then have "\<bar>of_int (round_half_even y) - y\<bar> = 1 - r" using r by (simp add: r_def)
      with assms True show ?thesis by simp
    next
      case nt: False
      then have "round_half_even y = (if even \<lfloor>y\<rfloor> then \<lfloor>y\<rfloor> else \<lfloor>y\<rfloor> + 1)"
        using False by (simp add: round_half_even_def Let_def r_def)
      then show ?thesis by simp
    qed
  qed
qed

lemma below_ten:
  "k < 10 \<Longrightarrow>
   k = 0 \<or> k = 1 \<or> k = 2 \<or> k = 3 \<or> k = 4 \<or> k = 5 \<or> k = 6 \<or> k = 7 \<or> k = 8 \<or> k = (9::nat)"
  by arith

lemma digit_char_digit: "digit_char d \<in> set ''0123456789''"
  unfolding digit_char_def by (rule nth_mem) simp

lemma digit_value_digit_char: "digit_value (digit_char d) = d mod 10"
proof -
  have "d mod 10 < 10" by simp
  from below_ten [OF this] show ?thesis
    unfolding digit_char_def digit_value_def by (elim disjE) simp_all
qed

lemma digit_char_zero: "0 < d \<Longrightarrow> d < 10 \<Longrightarrow> digit_char d \<noteq> CHR ''0''"
proof -
  assume "0 < d" and "d < 10"
  from below_ten [OF this(2)] this(1) show ?thesis
    unfolding digit_char_def by (elim disjE) simp_all
qed

lemma decimal_digits: "decimal n \<noteq> [] \<and> set (decimal n) \<subseteq> set ''0123456789''"
proof (induction n rule: decimal.induct)
  case (1 n)
  show ?case
  proof (cases "n < 10")
    case True
    then have "decimal n = [digit_char n]" by (simp add: decimal.simps)
    then show ?thesis using digit_char_digit [of n] by simp
  next
    case False
    then have "decimal n = decimal (n div 10) @ [digit_char (n mod 10)]"
      using decimal.simps [of n] by simp
    then show ?thesis using 1 False digit_char_digit [of "n mod 10"] by simp
  qed
qed

text \<open>The digits of a number have no leading zero, and reading them gives the number back.\<close>

lemma decimal_no_leading_zero: "0 < n \<Longrightarrow> hd (decimal n) \<noteq> CHR ''0''"
proof (induction n rule: decimal.induct)
  case (1 n)
  show ?case
  proof (cases "n < 10")
    case True
    then have "decimal n = [digit_char n]" by (simp add: decimal.simps [of n])
    then show ?thesis using 1(2) True digit_char_zero [of n] by simp
  next
    case False
    then have d: "decimal n = decimal (n div 10) @ [digit_char (n mod 10)]"
      using decimal.simps [of n] by simp
    have "0 < n div 10" using False by simp
    then have "hd (decimal (n div 10)) \<noteq> CHR ''0''" using 1(1) False by simp
    moreover have "decimal (n div 10) \<noteq> []" using decimal_digits by simp
    ultimately show ?thesis using d by simp
  qed
qed

lemma decimal_canonical: "decimal n = ''0'' \<or> hd (decimal n) \<noteq> CHR ''0''"
proof (cases "n = 0")
  case True
  then show ?thesis by (simp add: decimal.simps digit_char_def)
next
  case False
  then show ?thesis using decimal_no_leading_zero [of n] by simp
qed

lemma read_decimal_snoc: "read_decimal (s @ [c]) = 10 * read_decimal s + digit_value c"
  by (simp add: read_decimal_def)

lemma read_decimal_decimal: "read_decimal (decimal n) = n"
proof (induction n rule: decimal.induct)
  case (1 n)
  show ?case
  proof (cases "n < 10")
    case True
    then have "decimal n = [] @ [digit_char n]" by (simp add: decimal.simps [of n])
    then have "read_decimal (decimal n) = digit_value (digit_char n)"
      by (simp add: read_decimal_def)
    then show ?thesis using True by (simp add: digit_value_digit_char)
  next
    case False
    then have "decimal n = decimal (n div 10) @ [digit_char (n mod 10)]"
      using decimal.simps [of n] by simp
    then have "read_decimal (decimal n) = 10 * read_decimal (decimal (n div 10)) + n mod 10"
      by (simp add: read_decimal_snoc digit_value_digit_char)
    also have "read_decimal (decimal (n div 10)) = n div 10" using 1 False by simp
    finally show ?thesis by simp
  qed
qed

lemma hundreds_tens_units: "10 * (10 * (n div 100) + (n div 10) mod 10) + n mod 10 = (n::nat)"
proof -
  have "(n div 10) div 10 = n div (10 * 10)" by (rule div_mult2_eq [symmetric])
  then have "n div 100 = (n div 10) div 10" by simp
  then have "10 * (n div 100) + (n div 10) mod 10 = n div 10" by simp
  then show ?thesis by simp
qed

lemma read_decimal_two_more:
  "read_decimal (decimal (n div 100) @ [digit_char (n div 10), digit_char n]) = n"
proof -
  have "decimal (n div 100) @ [digit_char (n div 10), digit_char n] =
        (decimal (n div 100) @ [digit_char (n div 10)]) @ [digit_char n]" by simp
  then have "read_decimal (decimal (n div 100) @ [digit_char (n div 10), digit_char n]) =
        10 * (10 * (n div 100) + (n div 10) mod 10) + n mod 10"
    by (simp only: read_decimal_snoc read_decimal_decimal digit_value_digit_char)
  then show ?thesis by (simp only: hundreds_tens_units)
qed

text \<open>
  A finite float is rendered as its sign, the digits of the whole part, a point and two
  digits; read as a number of hundredths, the digits are the absolute value rounded to
  the nearest hundredth, an exact tie going to the even one.
\<close>

lemma fixed_2f_value:
  "\<exists>whole d1 d2.
     fixed_2f x = (if x < 0 then ''-'' else []) @ whole @ ''.'' @ [d1, d2] \<and>
     whole \<noteq> [] \<and> set whole \<subseteq> set ''0123456789'' \<and>
     (whole = ''0'' \<or> hd whole \<noteq> CHR ''0'') \<and>
     d1 \<in> set ''0123456789'' \<and> d2 \<in> set ''0123456789'' \<and>
     \<bar>real (read_decimal (whole @ [d1, d2])) - \<bar>x\<bar> * 100\<bar> \<le> 1 / 2 \<and>
     (\<bar>real (read_decimal (whole @ [d1, d2])) - \<bar>x\<bar> * 100\<bar> = 1 / 2 \<longrightarrow>
        even (read_decimal (whole @ [d1, d2])))"
proof -
  define r where "r = round_half_even (\<bar>x\<bar> * 100)"
  define n where "n = nat r"
  have r0: "0 \<le> r" unfolding r_def by (rule round_half_even_nonneg) simp
  then have rn: "real n = of_int r" by (simp add: n_def)
  have rd: "read_decimal (decimal (n div 100) @ [digit_char (n div 10), digit_char n]) = n"
    by (rule read_decimal_two_more)
  have near: "\<bar>real n - \<bar>x\<bar> * 100\<bar> \<le> 1 / 2"
    unfolding rn r_def by (rule round_half_even_near)
  have tie: "even n" if "\<bar>real n - \<bar>x\<bar> * 100\<bar> = 1 / 2"
  proof -
    from that have "even r" unfolding rn r_def by (rule round_half_even_tie)
    then show ?thesis using r0 by (simp add: n_def even_nat_iff)
  qed
  have f: "fixed_2f x = (if x < 0 then ''-'' else []) @ decimal (n div 100) @ ''.'' @
         [digit_char (n div 10), digit_char n]"
    by (simp add: fixed_2f_def n_def r_def Let_def)
  let ?whole = "decimal (n div 100)" and ?d1 = "digit_char (n div 10)" and ?d2 = "digit_char n"
  have "fixed_2f x = (if x < 0 then ''-'' else []) @ ?whole @ ''.'' @ [?d1, ?d2] \<and>
     ?whole \<noteq> [] \<and> set ?whole \<subseteq> set ''0123456789'' \<and>
     (?whole = ''0'' \<or> hd ?whole \<noteq> CHR ''0'') \<and>
     ?d1 \<in> set ''0123456789'' \<and> ?d2 \<in> set ''0123456789'' \<and>
     \<bar>real (read_decimal (?whole @ [?d1, ?d2])) - \<bar>x\<bar> * 100\<bar> \<le> 1 / 2 \<and>
     (\<bar>real (read_decimal (?whole @ [?d1, ?d2])) - \<bar>x\<bar> * 100\<bar> = 1 / 2 \<longrightarrow>
        even (read_decimal (?whole @ [?d1, ?d2])))"
    unfolding rd
    using f decimal_digits [of "n div 100"] decimal_canonical [of "n div 100"]
      digit_char_digit [of "n div 10"] digit_char_digit [of n] near tie
    by blast
  then show ?thesis by blast
qed

lemma newline_not_digit: "CHR 0x0A \<notin> set ''0123456789''"
  by simp

lemma fixed_2f_no_newline: "CHR 0x0A \<notin> set (fixed_2f x)"
proof -
  obtain whole d1 d2 where
    f: "fixed_2f x = (if x < 0 then ''-'' else []) @ whole @ ''.'' @ [d1, d2]" and
    w: "set whole \<subseteq> set ''0123456789''" and
    d: "d1 \<in> set ''0123456789''" "d2 \<in> set ''0123456789''"
    using fixed_2f_value [of x] by blast
  have "CHR 0x0A \<notin> set whole" using w newline_not_digit by blast
  moreover have "CHR 0x0A \<noteq> d1" "CHR 0x0A \<noteq> d2" using d newline_not_digit by blast+
  ultimately show ?thesis using f by simp
qed

lemma format_2f_no_newline: "CHR 0x0A \<notin> set (format_2f x)"
  using fixed_2f_no_newline by (cases x) simp_all

lemma format_segment_no_newline:
  "CHR 0x0A \<notin> set (segment_speaker seg) \<Longrightarrow> CHR 0x0A \<notin> set (segment_text seg) \<Longrightarrow>
   CHR 0x0A \<notin> set (format_segment seg)"
  using format_2f_no_newline by (simp add: format_segment_def)

lemma join_snoc: "xs \<noteq> [] \<Longrightarrow> join sep (xs @ [s]) = join sep xs @ sep @ s"
  by (induction sep xs rule: join.induct) simp_all

lemma count_join:
  "xs \<noteq> [] \<Longrightarrow> \<forall>x\<in>set xs. c \<notin> set x \<Longrightarrow> count_list (join [c] xs) c = length xs - 1"
  by (induction "[c]" xs rule: join.induct) simp_all

lemma count_newlines:
  assumes "turns \<noteq> []"
    and "\<forall>t\<in>set turns. CHR 0x0A \<notin> set (segment_speaker t) \<and> CHR 0x0A \<notin> set (segment_text t)"
  shows "count_list (format_combined_segments turns) (CHR 0x0A) = length turns - 1"
proof -
  have "\<forall>x\<in>set (map format_segment turns). CHR 0x0A \<notin> set x"
    using assms(2) format_segment_no_newline by auto
  moreover have "map format_segment turns \<noteq> []" using assms(1) by simp
  ultimately show ?thesis
    using count_join [of "map format_segment turns" "CHR 0x0A"]
    by (simp add: format_combined_segments_def)
qed

section \<open>The claims\<close>

subsection \<open>C1: segments whose end lies before their start\<close>

text \<open>
  C1, as amended. The function validates no span and has no error for one: a call with a
  segment whose end is smaller than its start returns as any other call does, and the
  span is not repaired. A transcription segment with \<open>end < start\<close> comes out as an
  \<open>UNKNOWN\<close> segment with its start, end and text unchanged when no diarization segment
  passes the soft-match test for it, and contributes nothing when one does, while the
  segments before and after it are aligned as usual; the call on that one segment returns
  the corresponding list of at most one turn. A diarization segment with \<open>end < start\<close>
  never passes the hard-overlap test, so the inner loop emits nothing for it.
\<close>

theorem malformed_span_processed:
  "(trans_end tseg < trans_start tseg \<longrightarrow>
      unified_transcript (T1 @ tseg # T2) D tol =
        unified_transcript T1 D tol @
        (if overlapping_segments tseg D tol = []
         then [\<lparr>seg_start = trans_start tseg, seg_end = trans_end tseg,
                 seg_speaker = UNKNOWN, seg_text = trans_text tseg\<rparr>]
         else []) @
        unified_transcript T2 D tol) \<and>
   (trans_end tseg < trans_start tseg \<longrightarrow>
      map_transcription_to_diarization [tseg] D tol =
        (if overlapping_segments tseg D tol = []
         then [\<lparr>seg_start = trans_start tseg, seg_end = trans_end tseg,
                 seg_speaker = UNKNOWN, seg_text = trans_text tseg\<rparr>]
         else [])) \<and>
   (dia_end dia < dia_start dia \<longrightarrow>
      map_overlaps tseg' (ds1 @ dia # ds2) unified = map_overlaps tseg' (ds1 @ ds2) unified)"
proof (intro conjI impI)
  assume m: "trans_end tseg < trans_start tseg"
  show "unified_transcript (T1 @ tseg # T2) D tol =
        unified_transcript T1 D tol @
        (if overlapping_segments tseg D tol = []
         then [\<lparr>seg_start = trans_start tseg, seg_end = trans_end tseg,
                 seg_speaker = UNKNOWN, seg_text = trans_text tseg\<rparr>]
         else []) @
        unified_transcript T2 D tol"
    using malformed_trans [OF m, of D tol]
    by (simp add: unified_transcript_append unified_transcript_Cons unknown_segment_def)
  have "unified_transcript [tseg] D tol =
        (if overlapping_segments tseg D tol = [] then [unknown_segment tseg] else [])"
    using malformed_trans [OF m, of D tol]
    by (simp add: unified_transcript_eq align_spec_def)
  then show "map_transcription_to_diarization [tseg] D tol =
        (if overlapping_segments tseg D tol = []
         then [\<lparr>seg_start = trans_start tseg, seg_end = trans_end tseg,
                 seg_speaker = UNKNOWN, seg_text = trans_text tseg\<rparr>]
         else [])"
    by (simp add: map_transcription_to_diarization_def merged_transcript_def
        unknown_segment_def)
next
  assume "dia_end dia < dia_start dia"
  then show "map_overlaps tseg' (ds1 @ dia # ds2) unified = map_overlaps tseg' (ds1 @ ds2) unified"
    using malformed_dia [of dia tseg'] by (simp add: map_overlaps_eq)
qed

theorem malformed_span_processed_witness:
  "trans_end \<lparr>trans_start = 2, trans_end = 1, trans_text = ''x''\<rparr>
     < trans_start \<lparr>trans_start = 2, trans_end = 1, trans_text = ''x''\<rparr> \<and>
   unified_transcript [\<lparr>trans_start = 2, trans_end = 1, trans_text = ''x''\<rparr>] [] 0.5
     = [\<lparr>seg_start = 2, seg_end = 1, seg_speaker = ''UNKNOWN'', seg_text = ''x''\<rparr>] \<and>
   map_transcription_to_diarization [\<lparr>trans_start = 2, trans_end = 1, trans_text = ''x''\<rparr>] [] 0.5
     = [\<lparr>seg_start = 2, seg_end = 1, seg_speaker = ''UNKNOWN'', seg_text = ''x''\<rparr>] \<and>
   dia_end \<lparr>dia_start = 3, dia_end = 2, dia_speaker = ''S1''\<rparr>
     < dia_start \<lparr>dia_start = 3, dia_end = 2, dia_speaker = ''S1''\<rparr> \<and>
   map_overlaps \<lparr>trans_start = 0, trans_end = 10, trans_text = ''y''\<rparr>
     [\<lparr>dia_start = 3, dia_end = 2, dia_speaker = ''S1''\<rparr>] [] = []"
  using malformed_span_processed [of "\<lparr>trans_start = 2, trans_end = 1, trans_text = ''x''\<rparr>"
      "[]" "[]" "[]" "0.5" "\<lparr>dia_start = 3, dia_end = 2, dia_speaker = ''S1''\<rparr>"
      "\<lparr>trans_start = 0, trans_end = 10, trans_text = ''y''\<rparr>" "[]" "[]" "[]"]
  by (simp add: overlapping_segments_def unified_transcript_def UNKNOWN_def)

text \<open>
  C1 as stated fails: the transcription segment from 2 to 1 has \<open>end < start\<close>, and the
  call on it with no diarization returns a turn list that holds the segment, span
  unchanged, instead of failing.
\<close>

theorem invalid_span_accepted_counterexample:
  "trans_end \<lparr>trans_start = 2, trans_end = 1, trans_text = ''x''\<rparr>
     < trans_start \<lparr>trans_start = 2, trans_end = 1, trans_text = ''x''\<rparr> \<and>
   map_transcription_to_diarization [\<lparr>trans_start = 2, trans_end = 1, trans_text = ''x''\<rparr>] [] 0.5
     = [\<lparr>seg_start = 2, seg_end = 1, seg_speaker = ''UNKNOWN'', seg_text = ''x''\<rparr>]"
  by (simp add: map_transcription_to_diarization_def merged_transcript_def
      unified_transcript_def map_trans_def overlapping_segments_def UNKNOWN_def)

subsection \<open>C2: the span of a merged turn\<close>

text \<open>
  C2, as amended. If every input segment of the merge satisfies \<open>end \<ge> start\<close> and, of
  every two neighbouring input segments with the same speaker, the later one does not
  start before the earlier one (\<open>run_ordered\<close>), then every turn the merge produces
  satisfies \<open>end \<ge> start\<close>.
\<close>

theorem merged_transcript_span:
  assumes "\<forall>s\<in>set segs. seg_start s \<le> seg_end s"
    and "run_ordered segs"
  shows "\<forall>turn\<in>set (merged_transcript segs). seg_start turn \<le> seg_end turn"
proof (cases segs)
  case Nil
  then show ?thesis by (simp add: merged_transcript_eq)
next
  case (Cons s rest)
  have "seg_start s \<le> seg_end s" and "\<forall>x\<in>set rest. seg_start x \<le> seg_end x"
    using assms(1) Cons by simp_all
  moreover have "run_ordered rest"
    using assms(2) Cons by (cases rest) (simp_all add: run_ordered_def)
  moreover have "seg_start s \<le> seg_start (hd rest)"
    if "rest \<noteq> []" "seg_speaker (hd rest) = seg_speaker s"
  proof -
    from that obtain r rs where "rest = r # rs" by (cases rest) auto
    with that assms(2) Cons show ?thesis by (simp add: run_ordered_def)
  qed
  ultimately have "\<forall>turn\<in>set (merge_from s rest). seg_start turn \<le> seg_end turn"
    by (rule merge_from_span)
  then show ?thesis using Cons by (simp add: merged_transcript_eq)
qed

theorem merged_transcript_span_witness:
  "list_all (\<lambda>s. seg_start s \<le> seg_end s)
     [\<lparr>seg_start = 0, seg_end = 1, seg_speaker = ''S1'', seg_text = ''hi''\<rparr>,
      \<lparr>seg_start = 1, seg_end = 2, seg_speaker = ''S1'', seg_text = ''there''\<rparr>,
      \<lparr>seg_start = 2, seg_end = 3, seg_speaker = ''S2'', seg_text = ''bye''\<rparr>] \<and>
   run_ordered
     [\<lparr>seg_start = 0, seg_end = 1, seg_speaker = ''S1'', seg_text = ''hi''\<rparr>,
      \<lparr>seg_start = 1, seg_end = 2, seg_speaker = ''S1'', seg_text = ''there''\<rparr>,
      \<lparr>seg_start = 2, seg_end = 3, seg_speaker = ''S2'', seg_text = ''bye''\<rparr>] \<and>
   list_all (\<lambda>turn. seg_start turn \<le> seg_end turn)
     (merged_transcript
       [\<lparr>seg_start = 0, seg_end = 1, seg_speaker = ''S1'', seg_text = ''hi''\<rparr>,
        \<lparr>seg_start = 1, seg_end = 2, seg_speaker = ''S1'', seg_text = ''there''\<rparr>,
        \<lparr>seg_start = 2, seg_end = 3, seg_speaker = ''S2'', seg_text = ''bye''\<rparr>])"
proof -
  let ?segs = "[\<lparr>seg_start = 0, seg_end = 1, seg_speaker = ''S1'', seg_text = ''hi''\<rparr>,
      \<lparr>seg_start = 1, seg_end = 2, seg_speaker = ''S1'', seg_text = ''there''\<rparr>,
      \<lparr>seg_start = 2, seg_end = 3, seg_speaker = ''S2'', seg_text = ''bye''\<rparr>]"
  have valid: "\<forall>s\<in>set ?segs. seg_start s \<le> seg_end s" by simp
  have ordered: "run_ordered ?segs" by (simp add: run_ordered_def)
  from merged_transcript_span [OF valid ordered] valid ordered
  show ?thesis unfolding list_all_iff by blast
qed

text \<open>
  C2 as stated fails: two segments of speaker S1, from 5 to 6 and from 0 to 1, each with
  \<open>end \<ge> start\<close>, merge into one turn from 5 to 1. The call on one transcription segment
  from 0 to 10 with the diarization segments from 5 to 6 and from 0 to 1, in that order,
  returns such a turn.
\<close>

theorem merged_span_counterexample:
  "seg_start \<lparr>seg_start = 5, seg_end = 6, seg_speaker = ''S1'', seg_text = ''a''\<rparr>
     \<le> seg_end \<lparr>seg_start = 5, seg_end = 6, seg_speaker = ''S1'', seg_text = ''a''\<rparr> \<and>
   seg_start \<lparr>seg_start = 0, seg_end = 1, seg_speaker = ''S1'', seg_text = ''b''\<rparr>
     \<le> seg_end \<lparr>seg_start = 0, seg_end = 1, seg_speaker = ''S1'', seg_text = ''b''\<rparr> \<and>
   merged_transcript
     [\<lparr>seg_start = 5, seg_end = 6, seg_speaker = ''S1'', seg_text = ''a''\<rparr>,
      \<lparr>seg_start = 0, seg_end = 1, seg_speaker = ''S1'', seg_text = ''b''\<rparr>]
     = [\<lparr>seg_start = 5, seg_end = 1, seg_speaker = ''S1'', seg_text = ''a b''\<rparr>] \<and>
   seg_end \<lparr>seg_start = 5, seg_end = 1, seg_speaker = ''S1'', seg_text = ''a b''\<rparr>
     < seg_start \<lparr>seg_start = 5, seg_end = 1, seg_speaker = ''S1'', seg_text = ''a b''\<rparr> \<and>
   map_transcription_to_diarization
     [\<lparr>trans_start = 0, trans_end = 10, trans_text = ''x''\<rparr>]
     [\<lparr>dia_start = 5, dia_end = 6, dia_speaker = ''S1''\<rparr>,
      \<lparr>dia_start = 0, dia_end = 1, dia_speaker = ''S1''\<rparr>] 0.5
     = [\<lparr>seg_start = 5, seg_end = 1, seg_speaker = ''S1'', seg_text = ''x x''\<rparr>]"
  by (simp add: map_transcription_to_diarization_def merged_transcript_def
      unified_transcript_def map_trans_def overlapping_segments_def)

subsection \<open>C3: no diarization, one turn\<close>

text \<open>
  C3. For a transcription of at least two segments and an empty diarization, the function
  returns exactly one turn: its speaker is \<open>UNKNOWN\<close>, its start the start of the first
  segment, its end the end of the last segment, and its text the texts of all segments
  in order, joined by single spaces. The tolerance plays no part.
\<close>

theorem unknown_turns_collapse:
  assumes "2 \<le> length T"
  shows "map_transcription_to_diarization T [] tol =
     [\<lparr>seg_start = trans_start (hd T), seg_end = trans_end (last T), seg_speaker = UNKNOWN,
       seg_text = join '' '' (map trans_text T)\<rparr>]"
proof -
  from assms obtain t rest where T: "T = t # rest" by (cases T) auto
  have same: "\<forall>s\<in>set (map unknown_segment rest). seg_speaker s = seg_speaker (unknown_segment t)"
    by (simp add: unknown_segment_def)
  have "map_transcription_to_diarization T [] tol =
          merge_from (unknown_segment t) (map unknown_segment rest)"
    by (simp add: map_transcription_to_diarization_def unified_no_diarization
        merged_transcript_eq T)
  also have "\<dots> = [(unknown_segment t)\<lparr>
        seg_end := seg_end (last (unknown_segment t # map unknown_segment rest)),
        seg_text := join '' '' (map seg_text (unknown_segment t # map unknown_segment rest))\<rparr>]"
    by (rule merge_from_run [OF same])
  also have "last (unknown_segment t # map unknown_segment rest) = unknown_segment (last T)"
    using last_map [of T unknown_segment] by (simp add: T)
  also have "map seg_text (unknown_segment t # map unknown_segment rest) = map trans_text T"
    by (simp add: T unknown_segment_def)
  finally show ?thesis by (simp add: unknown_segment_def T)
qed

theorem unknown_turns_collapse_witness:
  "2 \<le> length [\<lparr>trans_start = 0, trans_end = 1, trans_text = ''a''\<rparr>,
                 \<lparr>trans_start = 1, trans_end = 2, trans_text = ''b''\<rparr>,
                 \<lparr>trans_start = 4, trans_end = 5, trans_text = ''c''\<rparr>] \<and>
   map_transcription_to_diarization
     [\<lparr>trans_start = 0, trans_end = 1, trans_text = ''a''\<rparr>,
      \<lparr>trans_start = 1, trans_end = 2, trans_text = ''b''\<rparr>,
      \<lparr>trans_start = 4, trans_end = 5, trans_text = ''c''\<rparr>] [] 0.5
     = [\<lparr>seg_start = 0, seg_end = 5, seg_speaker = ''UNKNOWN'', seg_text = ''a b c''\<rparr>]"
  using unknown_turns_collapse [of
      "[\<lparr>trans_start = 0, trans_end = 1, trans_text = ''a''\<rparr>,
        \<lparr>trans_start = 1, trans_end = 2, trans_text = ''b''\<rparr>,
        \<lparr>trans_start = 4, trans_end = 5, trans_text = ''c''\<rparr>]" "0.5"]
  by (simp add: UNKNOWN_def)

subsection \<open>C4: no diarization, before the merge\<close>

text \<open>
  C4. Against an empty diarization the alignment loop yields, for every transcription and
  every tolerance (so for every tolerance that is not negative), exactly as many segments
  as the transcription has, each with speaker \<open>UNKNOWN\<close> and with the start, end and text
  of the transcription segment at its position.
\<close>

theorem align_empty_diarization:
  "length (unified_transcript T [] tol) = length T \<and>
   unified_transcript T [] tol =
     map (\<lambda>tseg. \<lparr>seg_start = trans_start tseg, seg_end = trans_end tseg,
                   seg_speaker = UNKNOWN, seg_text = trans_text tseg\<rparr>) T"
proof -
  have "unknown_segment = (\<lambda>tseg. \<lparr>seg_start = trans_start tseg, seg_end = trans_end tseg,
                   seg_speaker = UNKNOWN, seg_text = trans_text tseg\<rparr>)"
    by (rule ext) (simp add: unknown_segment_def)
  then show ?thesis using unified_no_diarization [of T tol] by simp
qed

subsection \<open>C5: the silent drop\<close>

text \<open>
  C5. A transcription segment that has a soft-match candidate, and whose every candidate
  fails the hard-overlap test (\<open>max\<close> of the starts at least \<open>min\<close> of the ends),
  contributes no segment: the body of the loop leaves the list as it was, and the
  alignment of a transcription that holds the segment is the alignment of the
  transcription without it. The witness is the example of the claim: the segment from 0
  to 1, the diarization segment from 1.3 to 2, tolerance 0.5.
\<close>

theorem soft_only_segment_dropped:
  assumes "overlapping_segments tseg D tol \<noteq> []"
    and "\<forall>dia\<in>set (overlapping_segments tseg D tol).
           min (dia_end dia) (trans_end tseg) \<le> max (dia_start dia) (trans_start tseg)"
  shows "map_trans D tol tseg unified = unified \<and>
         unified_transcript (T1 @ tseg # T2) D tol = unified_transcript (T1 @ T2) D tol"
proof -
  have "filter (\<lambda>d. ov_start d tseg < ov_end d tseg) (candidate_set tseg D tol) = []"
    using assms(2) by (auto simp: filter_empty_conv candidate_set_eq ov_start_def ov_end_def)
  then have "attribute tseg D tol = []"
    using assms(1) by (simp add: attribute_def candidate_set_eq)
  then show ?thesis
    by (simp add: map_trans_eq unified_transcript_append unified_transcript_Cons)
qed

theorem soft_only_segment_dropped_witness:
  "overlapping_segments \<lparr>trans_start = 0, trans_end = 1, trans_text = ''a''\<rparr>
     [\<lparr>dia_start = 1.3, dia_end = 2, dia_speaker = ''S1''\<rparr>] 0.5
     = [\<lparr>dia_start = 1.3, dia_end = 2, dia_speaker = ''S1''\<rparr>] \<and>
   min (2::real) 1 \<le> max 1.3 0 \<and>
   unified_transcript [\<lparr>trans_start = 0, trans_end = 1, trans_text = ''a''\<rparr>]
     [\<lparr>dia_start = 1.3, dia_end = 2, dia_speaker = ''S1''\<rparr>] 0.5 = [] \<and>
   map_transcription_to_diarization [\<lparr>trans_start = 0, trans_end = 1, trans_text = ''a''\<rparr>]
     [\<lparr>dia_start = 1.3, dia_end = 2, dia_speaker = ''S1''\<rparr>] 0.5 = []"
proof -
  let ?t = "\<lparr>trans_start = 0, trans_end = 1, trans_text = ''a''\<rparr>"
  let ?D = "[\<lparr>dia_start = 1.3, dia_end = 2, dia_speaker = ''S1''\<rparr>]"
  have cand: "overlapping_segments ?t ?D 0.5 = ?D"
    by (simp add: overlapping_segments_def)
  have soft: "overlapping_segments ?t ?D 0.5 \<noteq> []"
    unfolding cand by simp
  have hard: "\<forall>dia\<in>set (overlapping_segments ?t ?D 0.5).
           min (dia_end dia) (trans_end ?t) \<le> max (dia_start dia) (trans_start ?t)"
    unfolding cand by simp
  have "unified_transcript ([] @ ?t # []) ?D 0.5 = unified_transcript ([] @ []) ?D 0.5"
    using soft_only_segment_dropped [OF soft hard, of "[]" "[]" "[]"] by blast
  then have u: "unified_transcript [?t] ?D 0.5 = []"
    by (simp add: unified_transcript_def)
  show ?thesis using cand u
    by (simp add: map_transcription_to_diarization_def merged_transcript_def)
qed

subsection \<open>C6: the order of the emitted segments\<close>

text \<open>
  C6. The segments come out in the order of the transcription segments they stem from,
  and those of one transcription segment in the order of their candidates in the
  diarization list; nothing is sorted by time stamp. In the first conjunct the alignment
  of a concatenation is the concatenation of the alignments; in the second the segments
  of one transcription segment are the image of a sublist of the diarization list, kept
  in its order; the third is the same fact against the design document's formulation;
  the last is a call whose output runs backwards in time, as its two input lists do.
\<close>

theorem emission_order:
  "unified_transcript (T1 @ T2) D tol = unified_transcript T1 D tol @ unified_transcript T2 D tol \<and>
   unified_transcript [tseg] D tol =
     (if overlapping_segments tseg D tol = []
      then [\<lparr>seg_start = trans_start tseg, seg_end = trans_end tseg,
              seg_speaker = UNKNOWN, seg_text = trans_text tseg\<rparr>]
      else map (\<lambda>dia. \<lparr>seg_start = max (dia_start dia) (trans_start tseg),
                        seg_end = min (dia_end dia) (trans_end tseg),
                        seg_speaker = dia_speaker dia, seg_text = trans_text tseg\<rparr>)
             (filter (\<lambda>dia. max (dia_start dia) (trans_start tseg)
                               < min (dia_end dia) (trans_end tseg))
                (overlapping_segments tseg D tol))) \<and>
   unified_transcript T D tol = align_spec T D tol \<and>
   unified_transcript
     [\<lparr>trans_start = 4, trans_end = 10, trans_text = ''late''\<rparr>,
      \<lparr>trans_start = 0, trans_end = 3, trans_text = ''early''\<rparr>]
     [\<lparr>dia_start = 8, dia_end = 9, dia_speaker = ''S2''\<rparr>,
      \<lparr>dia_start = 5, dia_end = 6, dia_speaker = ''S1''\<rparr>,
      \<lparr>dia_start = 1, dia_end = 2, dia_speaker = ''S3''\<rparr>] 0.5
     = [\<lparr>seg_start = 8, seg_end = 9, seg_speaker = ''S2'', seg_text = ''late''\<rparr>,
        \<lparr>seg_start = 5, seg_end = 6, seg_speaker = ''S1'', seg_text = ''late''\<rparr>,
        \<lparr>seg_start = 1, seg_end = 2, seg_speaker = ''S3'', seg_text = ''early''\<rparr>]"
proof (intro conjI)
  show "unified_transcript (T1 @ T2) D tol = unified_transcript T1 D tol @ unified_transcript T2 D tol"
    by (rule unified_transcript_append)
  show "unified_transcript [tseg] D tol =
     (if overlapping_segments tseg D tol = []
      then [\<lparr>seg_start = trans_start tseg, seg_end = trans_end tseg,
              seg_speaker = UNKNOWN, seg_text = trans_text tseg\<rparr>]
      else map (\<lambda>dia. \<lparr>seg_start = max (dia_start dia) (trans_start tseg),
                        seg_end = min (dia_end dia) (trans_end tseg),
                        seg_speaker = dia_speaker dia, seg_text = trans_text tseg\<rparr>)
             (filter (\<lambda>dia. max (dia_start dia) (trans_start tseg)
                               < min (dia_end dia) (trans_end tseg))
                (overlapping_segments tseg D tol)))"
    by (simp add: unified_transcript_def map_trans_def map_overlaps_eq overlap_segment_def
        ov_start_def ov_end_def Let_def)
  show "unified_transcript T D tol = align_spec T D tol"
    by (rule unified_transcript_eq)
  show "unified_transcript
     [\<lparr>trans_start = 4, trans_end = 10, trans_text = ''late''\<rparr>,
      \<lparr>trans_start = 0, trans_end = 3, trans_text = ''early''\<rparr>]
     [\<lparr>dia_start = 8, dia_end = 9, dia_speaker = ''S2''\<rparr>,
      \<lparr>dia_start = 5, dia_end = 6, dia_speaker = ''S1''\<rparr>,
      \<lparr>dia_start = 1, dia_end = 2, dia_speaker = ''S3''\<rparr>] 0.5
     = [\<lparr>seg_start = 8, seg_end = 9, seg_speaker = ''S2'', seg_text = ''late''\<rparr>,
        \<lparr>seg_start = 5, seg_end = 6, seg_speaker = ''S1'', seg_text = ''late''\<rparr>,
        \<lparr>seg_start = 1, seg_end = 2, seg_speaker = ''S3'', seg_text = ''early''\<rparr>]"
    by (simp add: unified_transcript_def map_trans_def overlapping_segments_def)
qed

subsection \<open>C7: the merge joins neighbours only\<close>

text \<open>
  C7. The merge of no segments is empty. A segment that follows others is merged into the
  last turn of what precedes it exactly when it has that turn's speaker: the turn's end
  becomes the segment's end and the segment's text is appended after one space;
  otherwise the segment is a new turn. The speakers of the turns are the speakers of the
  segments with neighbouring repetitions removed, so two runs of one speaker with another
  speaker between them stay two turns; and where the speaker changes, the merge of the
  whole list is the merge of the part before followed by the merge of the part after.
  The two examples of the claim close the statement.
\<close>

theorem merge_adjacent_only:
  "merged_transcript [] = [] \<and>
   merged_transcript (segs @ [seg]) =
     (if segs \<noteq> [] \<and> seg_speaker seg = seg_speaker (last (merged_transcript segs))
      then butlast (merged_transcript segs) @
             [(last (merged_transcript segs))\<lparr>seg_end := seg_end seg,
                seg_text := seg_text (last (merged_transcript segs)) @ '' '' @ seg_text seg\<rparr>]
      else merged_transcript segs @ [seg]) \<and>
   map seg_speaker (merged_transcript segs) = remdups_adj (map seg_speaker segs) \<and>
   (xs \<noteq> [] \<and> ys \<noteq> [] \<and> seg_speaker (last xs) \<noteq> seg_speaker (hd ys) \<longrightarrow>
      merged_transcript (xs @ ys) = merged_transcript xs @ merged_transcript ys) \<and>
   merged_transcript
     [\<lparr>seg_start = 0, seg_end = 1, seg_speaker = ''S1'', seg_text = ''hi''\<rparr>,
      \<lparr>seg_start = 1, seg_end = 2, seg_speaker = ''S1'', seg_text = ''there''\<rparr>,
      \<lparr>seg_start = 2, seg_end = 3, seg_speaker = ''S2'', seg_text = ''bye''\<rparr>]
     = [\<lparr>seg_start = 0, seg_end = 2, seg_speaker = ''S1'', seg_text = ''hi there''\<rparr>,
        \<lparr>seg_start = 2, seg_end = 3, seg_speaker = ''S2'', seg_text = ''bye''\<rparr>] \<and>
   merged_transcript
     [\<lparr>seg_start = 0, seg_end = 1, seg_speaker = ''S1'', seg_text = ''a''\<rparr>,
      \<lparr>seg_start = 1, seg_end = 2, seg_speaker = ''S2'', seg_text = ''b''\<rparr>,
      \<lparr>seg_start = 2, seg_end = 3, seg_speaker = ''S1'', seg_text = ''c''\<rparr>]
     = [\<lparr>seg_start = 0, seg_end = 1, seg_speaker = ''S1'', seg_text = ''a''\<rparr>,
        \<lparr>seg_start = 1, seg_end = 2, seg_speaker = ''S2'', seg_text = ''b''\<rparr>,
        \<lparr>seg_start = 2, seg_end = 3, seg_speaker = ''S1'', seg_text = ''c''\<rparr>]"
proof (intro conjI impI)
  show "merged_transcript [] = []" by (simp add: merged_transcript_def)
  have nonempty: "merged_transcript segs \<noteq> [] \<longleftrightarrow> segs \<noteq> []"
    using speakers_merged [of segs] by (metis map_is_Nil_conv remdups_adj_Nil_iff)
  show "merged_transcript (segs @ [seg]) =
     (if segs \<noteq> [] \<and> seg_speaker seg = seg_speaker (last (merged_transcript segs))
      then butlast (merged_transcript segs) @
             [(last (merged_transcript segs))\<lparr>seg_end := seg_end seg,
                seg_text := seg_text (last (merged_transcript segs)) @ '' '' @ seg_text seg\<rparr>]
      else merged_transcript segs @ [seg])"
    unfolding merged_transcript_snoc nonempty ..
  show "map seg_speaker (merged_transcript segs) = remdups_adj (map seg_speaker segs)"
    by (rule speakers_merged)
  show "merged_transcript (xs @ ys) = merged_transcript xs @ merged_transcript ys"
    if "xs \<noteq> [] \<and> ys \<noteq> [] \<and> seg_speaker (last xs) \<noteq> seg_speaker (hd ys)"
    using that merged_boundary by blast
  show "merged_transcript
     [\<lparr>seg_start = 0, seg_end = 1, seg_speaker = ''S1'', seg_text = ''hi''\<rparr>,
      \<lparr>seg_start = 1, seg_end = 2, seg_speaker = ''S1'', seg_text = ''there''\<rparr>,
      \<lparr>seg_start = 2, seg_end = 3, seg_speaker = ''S2'', seg_text = ''bye''\<rparr>]
     = [\<lparr>seg_start = 0, seg_end = 2, seg_speaker = ''S1'', seg_text = ''hi there''\<rparr>,
        \<lparr>seg_start = 2, seg_end = 3, seg_speaker = ''S2'', seg_text = ''bye''\<rparr>]"
    by (simp add: merged_transcript_def)
  show "merged_transcript
     [\<lparr>seg_start = 0, seg_end = 1, seg_speaker = ''S1'', seg_text = ''a''\<rparr>,
      \<lparr>seg_start = 1, seg_end = 2, seg_speaker = ''S2'', seg_text = ''b''\<rparr>,
      \<lparr>seg_start = 2, seg_end = 3, seg_speaker = ''S1'', seg_text = ''c''\<rparr>]
     = [\<lparr>seg_start = 0, seg_end = 1, seg_speaker = ''S1'', seg_text = ''a''\<rparr>,
        \<lparr>seg_start = 1, seg_end = 2, seg_speaker = ''S2'', seg_text = ''b''\<rparr>,
        \<lparr>seg_start = 2, seg_end = 3, seg_speaker = ''S1'', seg_text = ''c''\<rparr>]"
    by (simp add: merged_transcript_def)
qed

theorem merge_adjacent_only_witness:
  "[\<lparr>seg_start = 0, seg_end = 1, seg_speaker = ''S1'', seg_text = ''a''\<rparr>] \<noteq> [] \<and>
   [\<lparr>seg_start = 1, seg_end = 2, seg_speaker = ''S2'', seg_text = ''b''\<rparr>,
    \<lparr>seg_start = 2, seg_end = 3, seg_speaker = ''S1'', seg_text = ''c''\<rparr>] \<noteq> [] \<and>
   seg_speaker (last [\<lparr>seg_start = 0, seg_end = 1, seg_speaker = ''S1'', seg_text = ''a''\<rparr>])
     \<noteq> seg_speaker (hd [\<lparr>seg_start = 1, seg_end = 2, seg_speaker = ''S2'', seg_text = ''b''\<rparr>,
                          \<lparr>seg_start = 2, seg_end = 3, seg_speaker = ''S1'', seg_text = ''c''\<rparr>]) \<and>
   merged_transcript
     ([\<lparr>seg_start = 0, seg_end = 1, seg_speaker = ''S1'', seg_text = ''a''\<rparr>] @
      [\<lparr>seg_start = 1, seg_end = 2, seg_speaker = ''S2'', seg_text = ''b''\<rparr>,
       \<lparr>seg_start = 2, seg_end = 3, seg_speaker = ''S1'', seg_text = ''c''\<rparr>])
     = merged_transcript [\<lparr>seg_start = 0, seg_end = 1, seg_speaker = ''S1'', seg_text = ''a''\<rparr>] @
       merged_transcript
         [\<lparr>seg_start = 1, seg_end = 2, seg_speaker = ''S2'', seg_text = ''b''\<rparr>,
          \<lparr>seg_start = 2, seg_end = 3, seg_speaker = ''S1'', seg_text = ''c''\<rparr>] \<and>
   map seg_speaker (merged_transcript
     [\<lparr>seg_start = 0, seg_end = 1, seg_speaker = ''S1'', seg_text = ''a''\<rparr>,
      \<lparr>seg_start = 1, seg_end = 2, seg_speaker = ''S2'', seg_text = ''b''\<rparr>,
      \<lparr>seg_start = 2, seg_end = 3, seg_speaker = ''S1'', seg_text = ''c''\<rparr>])
     = [''S1'', ''S2'', ''S1'']"
proof -
  let ?xs = "[\<lparr>seg_start = 0, seg_end = 1, seg_speaker = ''S1'', seg_text = ''a''\<rparr>]"
  let ?ys = "[\<lparr>seg_start = 1, seg_end = 2, seg_speaker = ''S2'', seg_text = ''b''\<rparr>,
    \<lparr>seg_start = 2, seg_end = 3, seg_speaker = ''S1'', seg_text = ''c''\<rparr>]"
  have pre: "?xs \<noteq> [] \<and> ?ys \<noteq> [] \<and> seg_speaker (last ?xs) \<noteq> seg_speaker (hd ?ys)"
    by simp
  have all: "map seg_speaker (merged_transcript (?xs @ ?ys)) = remdups_adj (map seg_speaker (?xs @ ?ys)) \<and>
      (?xs \<noteq> [] \<and> ?ys \<noteq> [] \<and> seg_speaker (last ?xs) \<noteq> seg_speaker (hd ?ys) \<longrightarrow>
        merged_transcript (?xs @ ?ys) = merged_transcript ?xs @ merged_transcript ?ys)"
    using merge_adjacent_only [of "?xs @ ?ys" _ ?xs ?ys] by blast
  then have split: "merged_transcript (?xs @ ?ys) = merged_transcript ?xs @ merged_transcript ?ys"
    using pre by blast
  have "map seg_speaker (merged_transcript (?xs @ ?ys)) = remdups_adj (map seg_speaker (?xs @ ?ys))"
    using all by blast
  then have speakers: "map seg_speaker (merged_transcript
     [\<lparr>seg_start = 0, seg_end = 1, seg_speaker = ''S1'', seg_text = ''a''\<rparr>,
      \<lparr>seg_start = 1, seg_end = 2, seg_speaker = ''S2'', seg_text = ''b''\<rparr>,
      \<lparr>seg_start = 2, seg_end = 3, seg_speaker = ''S1'', seg_text = ''c''\<rparr>])
     = [''S1'', ''S2'', ''S1'']"
    by simp
  show ?thesis using pre split speakers by blast
qed

subsection \<open>C8: the rendered transcript\<close>

text \<open>
  C8, as amended. \<open>format_combined_segments\<close> renders no turns as the empty string and one
  turn as its line, and each further turn adds one newline and that turn's line at the
  end, so the lines are joined by single newlines and nothing follows the last line. A
  line is the opening bracket, the start, a hyphen, the end, the closing bracket and a
  space, the speaker, a colon and a space, and the text. A finite start or end is
  rendered with exactly two decimal places: a minus sign exactly when it is negative, the
  digits of the whole part without a leading zero, a point and two digits, and these
  digits, read as a number of hundredths, are the absolute value rounded to the nearest
  hundredth, an exact tie going to the even one; the negative zero is rendered as
  \<^verbatim>\<open>-0.00\<close>, and an infinity or the NaN as the word \<^verbatim>\<open>inf\<close>, \<^verbatim>\<open>-inf\<close> or \<^verbatim>\<open>nan\<close>.
  When no speaker and no text holds a newline, a non-empty list of turns is rendered
  with one newline less than it has turns, that is, as one line per turn. The example of
  the claim, the two turns of the merge example, closes the statement.
\<close>

theorem format_combined_segments_lines:
  "format_combined_segments [] = [] \<and>
   format_combined_segments [seg] = format_segment seg \<and>
   format_combined_segments (seg # segs @ [seg']) =
     format_combined_segments (seg # segs) @ [CHR 0x0A] @ format_segment seg' \<and>
   format_segment seg =
     ''['' @ format_2f (segment_start seg) @ ''-'' @ format_2f (segment_end seg) @ ''] '' @
     segment_speaker seg @ '': '' @ segment_text seg \<and>
   (\<exists>whole d1 d2.
      format_2f (Finite x) = (if x < 0 then ''-'' else []) @ whole @ ''.'' @ [d1, d2] \<and>
      whole \<noteq> [] \<and> set whole \<subseteq> set ''0123456789'' \<and>
      (whole = ''0'' \<or> hd whole \<noteq> CHR ''0'') \<and>
      d1 \<in> set ''0123456789'' \<and> d2 \<in> set ''0123456789'' \<and>
      \<bar>real (read_decimal (whole @ [d1, d2])) - \<bar>x\<bar> * 100\<bar> \<le> 1 / 2 \<and>
      (\<bar>real (read_decimal (whole @ [d1, d2])) - \<bar>x\<bar> * 100\<bar> = 1 / 2 \<longrightarrow>
         even (read_decimal (whole @ [d1, d2])))) \<and>
   format_2f Neg_zero = ''-0.00'' \<and>
   format_2f Pos_inf = ''inf'' \<and> format_2f Neg_inf = ''-inf'' \<and> format_2f Nan = ''nan'' \<and>
   (turns \<noteq> [] \<and>
    (\<forall>t\<in>set turns. CHR 0x0A \<notin> set (segment_speaker t) \<and> CHR 0x0A \<notin> set (segment_text t)) \<longrightarrow>
      count_list (format_combined_segments turns) (CHR 0x0A) = length turns - 1) \<and>
   format_combined_segments
     (map combined
       [\<lparr>seg_start = 0, seg_end = 2, seg_speaker = ''S1'', seg_text = ''hi there''\<rparr>,
        \<lparr>seg_start = 2, seg_end = 3, seg_speaker = ''S2'', seg_text = ''bye''\<rparr>])
     = ''[0.00-2.00] S1: hi there'' @ [CHR 0x0A] @ ''[2.00-3.00] S2: bye''"
proof (intro conjI impI)
  show "format_combined_segments [] = []"
    by (simp add: format_combined_segments_def)
  show "format_combined_segments [seg] = format_segment seg"
    by (simp add: format_combined_segments_def)
  show "format_combined_segments (seg # segs @ [seg']) =
     format_combined_segments (seg # segs) @ [CHR 0x0A] @ format_segment seg'"
    using join_snoc [of "map format_segment (seg # segs)" "[CHR 0x0A]" "format_segment seg'"]
    by (simp add: format_combined_segments_def)
  show "format_segment seg =
     ''['' @ format_2f (segment_start seg) @ ''-'' @ format_2f (segment_end seg) @ ''] '' @
     segment_speaker seg @ '': '' @ segment_text seg"
    by (simp add: format_segment_def)
  show "\<exists>whole d1 d2.
      format_2f (Finite x) = (if x < 0 then ''-'' else []) @ whole @ ''.'' @ [d1, d2] \<and>
      whole \<noteq> [] \<and> set whole \<subseteq> set ''0123456789'' \<and>
      (whole = ''0'' \<or> hd whole \<noteq> CHR ''0'') \<and>
      d1 \<in> set ''0123456789'' \<and> d2 \<in> set ''0123456789'' \<and>
      \<bar>real (read_decimal (whole @ [d1, d2])) - \<bar>x\<bar> * 100\<bar> \<le> 1 / 2 \<and>
      (\<bar>real (read_decimal (whole @ [d1, d2])) - \<bar>x\<bar> * 100\<bar> = 1 / 2 \<longrightarrow>
         even (read_decimal (whole @ [d1, d2])))"
    unfolding format_2f.simps by (rule fixed_2f_value)
  show "format_2f Neg_zero = ''-0.00''" by simp
  show "format_2f Pos_inf = ''inf''" by simp
  show "format_2f Neg_inf = ''-inf''" by simp
  show "format_2f Nan = ''nan''" by simp
  show "count_list (format_combined_segments turns) (CHR 0x0A) = length turns - 1"
    if "turns \<noteq> [] \<and>
      (\<forall>t\<in>set turns. CHR 0x0A \<notin> set (segment_speaker t) \<and> CHR 0x0A \<notin> set (segment_text t))"
    using that count_newlines by blast
  show "format_combined_segments
     (map combined
       [\<lparr>seg_start = 0, seg_end = 2, seg_speaker = ''S1'', seg_text = ''hi there''\<rparr>,
        \<lparr>seg_start = 2, seg_end = 3, seg_speaker = ''S2'', seg_text = ''bye''\<rparr>])
     = ''[0.00-2.00] S1: hi there'' @ [CHR 0x0A] @ ''[2.00-3.00] S2: bye''"
    by (simp add: format_combined_segments_def format_segment_def combined_def fixed_2f_def
        round_half_even_def decimal.simps digit_char_def)
qed

theorem format_combined_segments_lines_witness:
  "map combined
     [\<lparr>seg_start = 0, seg_end = 2, seg_speaker = ''S1'', seg_text = ''hi there''\<rparr>,
      \<lparr>seg_start = 2, seg_end = 3, seg_speaker = ''S2'', seg_text = ''bye''\<rparr>] \<noteq> [] \<and>
   list_all (\<lambda>t. CHR 0x0A \<notin> set (segment_speaker t) \<and> CHR 0x0A \<notin> set (segment_text t))
     (map combined
       [\<lparr>seg_start = 0, seg_end = 2, seg_speaker = ''S1'', seg_text = ''hi there''\<rparr>,
        \<lparr>seg_start = 2, seg_end = 3, seg_speaker = ''S2'', seg_text = ''bye''\<rparr>]) \<and>
   count_list
     (format_combined_segments
       (map combined
         [\<lparr>seg_start = 0, seg_end = 2, seg_speaker = ''S1'', seg_text = ''hi there''\<rparr>,
          \<lparr>seg_start = 2, seg_end = 3, seg_speaker = ''S2'', seg_text = ''bye''\<rparr>]))
     (CHR 0x0A) = 1 \<and>
   format_2f (Finite 12.5) = ''12.50'' \<and>
   \<bar>real (read_decimal (''12'' @ [CHR ''5'', CHR ''0''])) - \<bar>12.5\<bar> * 100\<bar> \<le> 1 / 2 \<and>
   format_2f (Finite (- 1.5)) = ''-1.50'' \<and>
   format_2f (Finite 0.125) = ''0.12'' \<and>
   \<bar>real (read_decimal (''0'' @ [CHR ''1'', CHR ''2''])) - \<bar>0.125\<bar> * 100\<bar> = 1 / 2 \<and>
   even (read_decimal (''0'' @ [CHR ''1'', CHR ''2'']))"
proof -
  let ?turns = "map combined
     [\<lparr>seg_start = 0, seg_end = 2, seg_speaker = ''S1'', seg_text = ''hi there''\<rparr>,
      \<lparr>seg_start = 2, seg_end = 3, seg_speaker = ''S2'', seg_text = ''bye''\<rparr>]"
  have pre: "?turns \<noteq> [] \<and>
    (\<forall>t\<in>set ?turns. CHR 0x0A \<notin> set (segment_speaker t) \<and> CHR 0x0A \<notin> set (segment_text t))"
    by (simp add: combined_def)
  have "?turns \<noteq> [] \<and>
    (\<forall>t\<in>set ?turns. CHR 0x0A \<notin> set (segment_speaker t) \<and> CHR 0x0A \<notin> set (segment_text t)) \<longrightarrow>
      count_list (format_combined_segments ?turns) (CHR 0x0A) = length ?turns - 1"
    using format_combined_segments_lines [of _ _ _ _ ?turns] by blast
  with pre have "count_list (format_combined_segments ?turns) (CHR 0x0A) = length ?turns - 1"
    by blast
  then have lines: "count_list (format_combined_segments ?turns) (CHR 0x0A) = 1" by simp
  have clean: "list_all (\<lambda>t. CHR 0x0A \<notin> set (segment_speaker t) \<and> CHR 0x0A \<notin> set (segment_text t)) ?turns"
    by (simp add: combined_def)
  have a: "format_2f (Finite 12.5) = ''12.50''"
    by (simp add: fixed_2f_def round_half_even_def decimal.simps digit_char_def)
  have b: "\<bar>real (read_decimal (''12'' @ [CHR ''5'', CHR ''0''])) - \<bar>12.5\<bar> * 100\<bar> \<le> 1 / 2"
    by (simp add: read_decimal_def digit_value_def)
  have c: "format_2f (Finite (- 1.5)) = ''-1.50''"
    by (simp add: fixed_2f_def round_half_even_def decimal.simps digit_char_def)
  have d: "format_2f (Finite 0.125) = ''0.12''"
    by (simp add: fixed_2f_def round_half_even_def decimal.simps digit_char_def)
  have e: "\<bar>real (read_decimal (''0'' @ [CHR ''1'', CHR ''2''])) - \<bar>0.125\<bar> * 100\<bar> = 1 / 2"
    by (simp add: read_decimal_def digit_value_def)
  have f: "even (read_decimal (''0'' @ [CHR ''1'', CHR ''2'']))"
    by (simp add: read_decimal_def digit_value_def)
  from pre lines clean a b c d e f show ?thesis by blast
qed

text \<open>
  C8 as stated fails. One turn whose text holds a newline is rendered as two lines, so the
  rendering is not one line per turn for every sequence of turns; and a turn whose start
  and end are the float infinity is rendered with the word \<^verbatim>\<open>inf\<close>, not with two decimal
  places.
\<close>

theorem format_lines_counterexample:
  "length [\<lparr>segment_start = Finite 0, segment_end = Finite 1, segment_speaker = ''S1'',
            segment_text = ''a'' @ [CHR 0x0A] @ ''b''\<rparr>] = 1 \<and>
   format_combined_segments
     [\<lparr>segment_start = Finite 0, segment_end = Finite 1, segment_speaker = ''S1'',
       segment_text = ''a'' @ [CHR 0x0A] @ ''b''\<rparr>]
     = ''[0.00-1.00] S1: a'' @ [CHR 0x0A] @ ''b'' \<and>
   count_list
     (format_combined_segments
       [\<lparr>segment_start = Finite 0, segment_end = Finite 1, segment_speaker = ''S1'',
         segment_text = ''a'' @ [CHR 0x0A] @ ''b''\<rparr>])
     (CHR 0x0A) = 1 \<and>
   format_combined_segments
     [\<lparr>segment_start = Pos_inf, segment_end = Pos_inf, segment_speaker = ''S1'',
       segment_text = ''a''\<rparr>]
     = ''[inf-inf] S1: a''"
  by (simp add: format_combined_segments_def format_segment_def fixed_2f_def
      round_half_even_def decimal.simps digit_char_def)

subsection \<open>C9: segments of the overlap branch have a positive length\<close>

text \<open>
  C9. Every segment that the inner loop adds to the list satisfies \<open>end > start\<close>, and so
  does every segment of the alignment whose speaker is not \<open>UNKNOWN\<close>, which only the
  inner loop can have emitted. This holds for all inputs and every tolerance, hence for
  segments with \<open>end \<ge> start\<close> and a tolerance that is not negative.
\<close>

theorem overlap_branch_positive:
  "(\<forall>s\<in>set (map_overlaps tseg candidates unified).
      s \<in> set unified \<or> seg_start s < seg_end s) \<and>
   (\<forall>s\<in>set (unified_transcript T D tol).
      seg_speaker s \<noteq> UNKNOWN \<longrightarrow> seg_start s < seg_end s)"
proof (intro conjI ballI impI)
  fix s assume "s \<in> set (map_overlaps tseg candidates unified)"
  then show "s \<in> set unified \<or> seg_start s < seg_end s"
    using overlap_segment_positive [of s tseg candidates] by (auto simp: map_overlaps_eq)
next
  fix s assume "s \<in> set (unified_transcript T D tol)" and "seg_speaker s \<noteq> UNKNOWN"
  then show "seg_start s < seg_end s"
    using attribute_positive by (auto simp: unified_transcript_eq align_spec_def)
qed

theorem overlap_branch_positive_witness:
  "\<lparr>seg_start = 1, seg_end = 2, seg_speaker = ''S1'', seg_text = ''hello''\<rparr>
     \<in> set (unified_transcript [\<lparr>trans_start = 0, trans_end = 2, trans_text = ''hello''\<rparr>]
              [\<lparr>dia_start = 1, dia_end = 3, dia_speaker = ''S1''\<rparr>] 0.5) \<and>
   seg_speaker \<lparr>seg_start = 1, seg_end = 2, seg_speaker = ''S1'', seg_text = ''hello''\<rparr> \<noteq> UNKNOWN \<and>
   seg_start \<lparr>seg_start = 1, seg_end = 2, seg_speaker = ''S1'', seg_text = ''hello''\<rparr>
     < seg_end \<lparr>seg_start = 1, seg_end = 2, seg_speaker = ''S1'', seg_text = ''hello''\<rparr>"
proof -
  let ?s = "\<lparr>seg_start = 1, seg_end = 2, seg_speaker = ''S1'', seg_text = ''hello''\<rparr>"
  let ?T = "[\<lparr>trans_start = 0, trans_end = 2, trans_text = ''hello''\<rparr>]"
  let ?D = "[\<lparr>dia_start = 1, dia_end = 3, dia_speaker = ''S1''\<rparr>]"
  have mem: "?s \<in> set (unified_transcript ?T ?D 0.5)"
    by (simp add: unified_transcript_def map_trans_def overlapping_segments_def)
  have lab: "seg_speaker ?s \<noteq> UNKNOWN" by (simp add: UNKNOWN_def)
  have "\<forall>s\<in>set (unified_transcript ?T ?D 0.5).
      seg_speaker s \<noteq> UNKNOWN \<longrightarrow> seg_start s < seg_end s"
    using overlap_branch_positive [of _ _ _ ?T ?D "0.5"] by blast
  with mem lab have "seg_start ?s < seg_end ?s" by blast
  with mem lab show ?thesis by blast
qed

subsection \<open>C10: the segment of a true overlap\<close>

text \<open>
  C10. For a tolerance that is not negative, and a transcription and a diarization
  segment whose hard overlap window is not empty (\<open>max\<close> of the starts below \<open>min\<close> of
  the ends), the alignment of the one against the other is exactly one segment: its span
  is that window, its speaker the label of the diarization segment, its text the whole
  text of the transcription segment. The same segment is among the output whenever the two
  are members of the input lists. The witness is the example of the claim: the segment
  from 0 to 2 with text hello, the diarization segment from 1 to 3 of S1, tolerance 0.5.
\<close>

theorem true_overlap_segment:
  assumes "0 \<le> tol"
    and "max (dia_start dia) (trans_start tseg) < min (dia_end dia) (trans_end tseg)"
  shows "unified_transcript [tseg] [dia] tol =
           [\<lparr>seg_start = max (dia_start dia) (trans_start tseg),
             seg_end = min (dia_end dia) (trans_end tseg),
             seg_speaker = dia_speaker dia, seg_text = trans_text tseg\<rparr>] \<and>
         (tseg \<in> set T \<and> dia \<in> set D \<longrightarrow>
           \<lparr>seg_start = max (dia_start dia) (trans_start tseg),
            seg_end = min (dia_end dia) (trans_end tseg),
            seg_speaker = dia_speaker dia, seg_text = trans_text tseg\<rparr>
           \<in> set (unified_transcript T D tol))"
proof (intro conjI impI)
  have soft: "max (dia_start dia) (trans_start tseg) - min (dia_end dia) (trans_end tseg) < tol"
    using assms by linarith
  show "unified_transcript [tseg] [dia] tol =
           [\<lparr>seg_start = max (dia_start dia) (trans_start tseg),
             seg_end = min (dia_end dia) (trans_end tseg),
             seg_speaker = dia_speaker dia, seg_text = trans_text tseg\<rparr>]"
    using soft assms(2)
    by (simp add: unified_transcript_def map_trans_def overlapping_segments_def)
  assume "tseg \<in> set T \<and> dia \<in> set D"
  then have t: "tseg \<in> set T" and d: "dia \<in> set D" by simp_all
  have cand: "dia \<in> set (candidate_set tseg D tol)"
    using d soft by (simp add: candidate_set_def gap_def)
  then have "candidate_set tseg D tol \<noteq> []" by auto
  moreover have "dia \<in> set (filter (\<lambda>d. ov_start d tseg < ov_end d tseg) (candidate_set tseg D tol))"
    using cand assms(2) by (simp add: ov_start_def ov_end_def)
  ultimately have "overlap_segment tseg dia \<in> set (attribute tseg D tol)"
    by (simp add: attribute_def)
  then have "overlap_segment tseg dia \<in> set (unified_transcript T D tol)"
    using t by (auto simp: unified_transcript_eq align_spec_def)
  then show "\<lparr>seg_start = max (dia_start dia) (trans_start tseg),
            seg_end = min (dia_end dia) (trans_end tseg),
            seg_speaker = dia_speaker dia, seg_text = trans_text tseg\<rparr>
           \<in> set (unified_transcript T D tol)"
    by (simp add: overlap_segment_def ov_start_def ov_end_def)
qed

theorem true_overlap_segment_witness:
  "(0::real) \<le> 0.5 \<and>
   max (dia_start \<lparr>dia_start = 1, dia_end = 3, dia_speaker = ''S1''\<rparr>)
       (trans_start \<lparr>trans_start = 0, trans_end = 2, trans_text = ''hello''\<rparr>)
     < min (dia_end \<lparr>dia_start = 1, dia_end = 3, dia_speaker = ''S1''\<rparr>)
           (trans_end \<lparr>trans_start = 0, trans_end = 2, trans_text = ''hello''\<rparr>) \<and>
   unified_transcript [\<lparr>trans_start = 0, trans_end = 2, trans_text = ''hello''\<rparr>]
     [\<lparr>dia_start = 1, dia_end = 3, dia_speaker = ''S1''\<rparr>] 0.5
     = [\<lparr>seg_start = 1, seg_end = 2, seg_speaker = ''S1'', seg_text = ''hello''\<rparr>]"
proof -
  let ?t = "\<lparr>trans_start = 0, trans_end = 2, trans_text = ''hello''\<rparr>"
  let ?d = "\<lparr>dia_start = 1, dia_end = 3, dia_speaker = ''S1''\<rparr>"
  have tol: "(0::real) \<le> 0.5" by simp
  have hard: "max (dia_start ?d) (trans_start ?t) < min (dia_end ?d) (trans_end ?t)" by simp
  have "unified_transcript [?t] [?d] 0.5 =
           [\<lparr>seg_start = max (dia_start ?d) (trans_start ?t),
             seg_end = min (dia_end ?d) (trans_end ?t),
             seg_speaker = dia_speaker ?d, seg_text = trans_text ?t\<rparr>]"
    using true_overlap_segment [OF tol hard] by blast
  then have "unified_transcript [?t] [?d] 0.5 =
     [\<lparr>seg_start = 1, seg_end = 2, seg_speaker = ''S1'', seg_text = ''hello''\<rparr>]"
    by simp
  with tol hard show ?thesis by blast
qed

end
